theory Spec2Isabelle
  imports Main
begin

section \<open>JavaScript strings\<close>

text \<open>
  A string is a list of characters, each character one UTF-16 code unit in the range
  U+0000 to U+00FF (Latin-1); a string with a code unit above U+00FF has no
  counterpart here. On this range \<open>String.prototype.trim\<close> strips TAB, LF, VT, FF,
  CR, SPACE and the no-break space U+00A0, and \<open>toLowerCase\<close> maps \<open>A\<close>..\<open>Z\<close> and
  the letters U+00C0 to U+00DE, except the multiplication sign U+00D7, to the code unit
  32 above.
\<close>

definition isSpace :: "char \<Rightarrow> bool" where
  "isSpace c = (let n = (of_char c :: nat) in (9 \<le> n \<and> n \<le> 13) \<or> n = 32 \<or> n = 160)"

definition trim :: "string \<Rightarrow> string" where
  "trim s = rev (dropWhile isSpace (rev (dropWhile isSpace s)))"

definition isUpper :: "nat \<Rightarrow> bool" where
  "isUpper n = ((65 \<le> n \<and> n \<le> 90) \<or> (192 \<le> n \<and> n \<le> 214) \<or> (216 \<le> n \<and> n \<le> 222))"

definition lowerChar :: "char \<Rightarrow> char" where
  "lowerChar c = (let n = (of_char c :: nat) in if isUpper n then char_of (n + 32) else c)"

definition toLowerCase :: "string \<Rightarrow> string" where
  "toLowerCase s = map lowerChar s"

text \<open>\<open>s.split(",")\<close>: always at least one piece; \<open>"".split(",")\<close> is \<open>[""]\<close>.\<close>

fun split_comma :: "string \<Rightarrow> string list" where
  "split_comma [] = [[]]"
| "split_comma (c # cs) =
     (if c = CHR '','' then [] # split_comma cs
      else (case split_comma cs of [] \<Rightarrow> [[c]] | w # ws \<Rightarrow> (c # w) # ws))"

text \<open>\<open>Boolean(s)\<close> for a string: the empty string is the only falsy one.\<close>

definition truthy :: "string \<Rightarrow> bool" where
  "truthy s = (s \<noteq> [])"

text \<open>
  A request-body field that is either absent (\<open>undefined\<close>) or a string. \<open>!v\<close> holds for
  \<open>undefined\<close> and for the empty string; \<open>v || d\<close> is \<open>d\<close> in exactly those cases.
\<close>

definition falsy :: "string option \<Rightarrow> bool" where
  "falsy v = (case v of None \<Rightarrow> True | Some s \<Rightarrow> s = [])"

definition orElse :: "string option \<Rightarrow> string \<Rightarrow> string" where
  "orElse v d = (case v of None \<Rightarrow> d | Some s \<Rightarrow> if s = [] then d else s)"

text \<open>
  \<open>[...new Set(cats)]\<close>: a \<open>Set\<close> iterates in insertion order, so each value stays at
  its first occurrence.
\<close>

definition setAdd :: "'a list \<Rightarrow> 'a \<Rightarrow> 'a list" where
  "setAdd seen c = (if c \<in> set seen then seen else seen @ [c])"

definition newSet :: "'a list \<Rightarrow> 'a list" where
  "newSet cats = foldl setAdd [] cats"

section \<open>Category normalisation (editorRoutes.js)\<close>

text \<open>
  The \<open>categories\<close> field of a request body: absent, an array of strings, or a string.
\<close>

datatype catInput = CatsAbsent | CatsArray "string list" | CatsString string

definition normalizeCategories :: "catInput \<Rightarrow> string list" where
  "normalizeCategories input =
     (let cats0 = (case input of
                     CatsArray xs \<Rightarrow> xs
                   | CatsString s \<Rightarrow>
                       if truthy (trim s) then filter truthy (map trim (split_comma s)) else []
                   | CatsAbsent \<Rightarrow> []);
          cats1 = map (\<lambda>c. trim (toLowerCase c)) cats0;
          cats2 = newSet cats1
      in if cats2 = [] then [''latest''] else cats2)"

section \<open>Documents and collections (models/Article.js, models/Editor.js)\<close>

text \<open>
  An \<open>ObjectId\<close> is kept as its canonical 24-digit lowercase hexadecimal string. Casting
  a request string to an \<open>ObjectId\<close> succeeds on 24 hexadecimal digits (in either case)
  and fails otherwise; \<open>mongoose.Types.ObjectId.isValid\<close> is the same test. The 12-byte
  string form accepted by some driver versions is not modelled.
\<close>

definition isHexDigit :: "char \<Rightarrow> bool" where
  "isHexDigit c = (let n = (of_char c :: nat) in
                     (48 \<le> n \<and> n \<le> 57) \<or> (65 \<le> n \<and> n \<le> 70) \<or> (97 \<le> n \<and> n \<le> 102))"

definition castObjectId :: "string \<Rightarrow> string option" where
  "castObjectId s = (if length s = 24 \<and> list_all isHexDigit s then Some (toLowerCase s) else None)"

definition isValid :: "string \<Rightarrow> bool" where
  "isValid s = (case castObjectId s of None \<Rightarrow> False | Some _ \<Rightarrow> True)"

text \<open>
  Dates are milliseconds since the epoch. \<open>publishedAt\<close> is optional; a \<open>Date\<close> object
  is always truthy, so \<open>!article.publishedAt\<close> holds exactly when the field is unset.
  Of the two schema timestamps only \<open>createdAt\<close> is kept (the public listing sorts by
  it); \<open>updatedAt\<close> is not modelled.
\<close>

record article =
  article_id :: string
  title :: string
  summary :: string
  content :: string
  categories :: "string list"
  imageUrl :: string
  source :: string
  status :: string
  author :: string
  publishedAt :: "nat option"
  createdAt :: nat

record editor =
  editor_id :: string
  name :: string
  email :: string
  password :: string
  role :: string

record db =
  articles :: "article list"
  editors :: "editor list"

definition CATEGORIES :: "string list" where
  "CATEGORIES = [''latest'', ''business'', ''sports'', ''entertainment'', ''political'',
                 ''international'', ''tech'', ''automobile'', ''law'', ''other'']"

definition STATUSES :: "string list" where
  "STATUSES = [''draft'', ''in_review'', ''published'']"

definition ROLES :: "string list" where
  "ROLES = [''admin'', ''user'']"

text \<open>
  What a store call can throw. Every handler wraps its body in \<open>try\<close>/\<open>catch\<close> and
  answers 500 \<open>Server error\<close> on any of them.
\<close>

datatype exn = CastError | ValidationError | DuplicateKey | SyntaxError | TypeError

text \<open>A reply is an HTTP error (status, message) or the payload of a 2xx answer.\<close>

type_synonym 'a reply = "(nat \<times> string) + 'a"

definition serverError :: "nat \<times> string" where
  "serverError = (500, ''Server error'')"

subsection \<open>Article collection\<close>

text \<open>
  Schema setters run when a path is assigned: \<open>trim\<close> on title, summary, imageUrl and
  source; \<open>lowercase\<close> and \<open>trim\<close> on each category.
\<close>

definition setCategory :: "string \<Rightarrow> string" where
  "setCategory c = trim (toLowerCase c)"

text \<open>
  Validation, at \<open>create\<close> and at every \<open>save\<close>, of the whole document: the required
  strings (title, content) must be non-empty, every category must be in the
  vocabulary and the status must be one of \<open>STATUSES\<close>, whether or not the request
  changed them. The required \<open>author\<close> is an \<open>ObjectId\<close>: a value that does not
  cast fails validation when the document is created.
\<close>

definition validateArticle :: "article \<Rightarrow> bool" where
  "validateArticle a =
     (title a \<noteq> [] \<and> content a \<noteq> []
      \<and> list_all (\<lambda>c. c \<in> set CATEGORIES) (categories a)
      \<and> status a \<in> set STATUSES)"

text \<open>\<open>Article.create(doc)\<close>: setters, validation, insertion.\<close>

definition Article_create :: "article \<Rightarrow> article list \<Rightarrow> exn + (article \<times> article list)" where
  "Article_create doc arts =
     (case castObjectId (author doc) of
        None \<Rightarrow> Inl ValidationError
      | Some au \<Rightarrow>
          (let d = doc\<lparr>title := trim (title doc), summary := trim (summary doc),
                       imageUrl := trim (imageUrl doc), source := trim (source doc),
                       categories := map setCategory (categories doc), author := au\<rparr>
           in if validateArticle d then Inr (d, arts @ [d]) else Inl ValidationError))"

text \<open>\<open>updateOne({_id})\<close>: the first document with that id is replaced.\<close>

fun replaceArticle :: "article \<Rightarrow> article list \<Rightarrow> article list" where
  "replaceArticle d [] = []"
| "replaceArticle d (x # xs) =
     (if article_id x = article_id d then d # xs else x # replaceArticle d xs)"

text \<open>\<open>article.save()\<close>: validation of the document, then the write.\<close>

definition Article_save :: "article \<Rightarrow> article list \<Rightarrow> exn + article list" where
  "Article_save new arts =
     (if validateArticle new then Inr (replaceArticle new arts) else Inl ValidationError)"

text \<open>\<open>Article.findById(id)\<close>: a malformed id is a \<open>CastError\<close>.\<close>

definition Article_findById :: "article list \<Rightarrow> string \<Rightarrow> exn + article option" where
  "Article_findById arts ident =
     (case castObjectId ident of
        None \<Rightarrow> Inl CastError
      | Some k \<Rightarrow> Inr (find (\<lambda>a. article_id a = k) arts))"

text \<open>\<open>Article.findOne({_id: id, author: uid})\<close>: both values are cast.\<close>

definition Article_findOne_author :: "article list \<Rightarrow> string \<Rightarrow> string \<Rightarrow> exn + article option" where
  "Article_findOne_author arts ident uid =
     (case castObjectId ident of
        None \<Rightarrow> Inl CastError
      | Some k \<Rightarrow>
          (case castObjectId uid of
             None \<Rightarrow> Inl CastError
           | Some u \<Rightarrow> Inr (find (\<lambda>a. article_id a = k \<and> author a = u) arts)))"

text \<open>\<open>Article.findOne({_id: id, status: "published"})\<close>.\<close>

definition Article_findOne_published :: "article list \<Rightarrow> string \<Rightarrow> exn + article option" where
  "Article_findOne_published arts ident =
     (case castObjectId ident of
        None \<Rightarrow> Inl CastError
      | Some k \<Rightarrow> Inr (find (\<lambda>a. article_id a = k \<and> status a = ''published'') arts))"

subsection \<open>Editor collection\<close>

text \<open>
  The editor schema trims name and email (no \<open>lowercase\<close> option), requires name, email
  and password, restricts role to \<open>ROLES\<close>, and puts a unique index on email. Setters
  also run on query values, so a query by email compares the trimmed value. Validation
  covers the whole document at \<open>create\<close> and at every \<open>save\<close>.
\<close>

definition validateEditor :: "editor \<Rightarrow> bool" where
  "validateEditor e =
     (name e \<noteq> [] \<and> email e \<noteq> [] \<and> password e \<noteq> [] \<and> role e \<in> set ROLES)"

definition Editor_findOne_email :: "editor list \<Rightarrow> string \<Rightarrow> editor option" where
  "Editor_findOne_email eds em = find (\<lambda>e. email e = trim em) eds"

text \<open>\<open>Editor.findOne({email, _id: {$ne: self}})\<close>.\<close>

definition Editor_findOne_email_ne :: "editor list \<Rightarrow> string \<Rightarrow> string \<Rightarrow> editor option" where
  "Editor_findOne_email_ne eds em self =
     find (\<lambda>e. email e = trim em \<and> editor_id e \<noteq> self) eds"


definition Editor_findById :: "editor list \<Rightarrow> string \<Rightarrow> exn + editor option" where
  "Editor_findById eds ident =
     (case castObjectId ident of
        None \<Rightarrow> Inl CastError
      | Some k \<Rightarrow> Inr (find (\<lambda>e. editor_id e = k) eds))"

definition Editor_create :: "editor \<Rightarrow> editor list \<Rightarrow> exn + (editor \<times> editor list)" where
  "Editor_create doc eds =
     (let d = doc\<lparr>name := trim (name doc), email := trim (email doc)\<rparr>
      in if validateEditor d
         then (if list_ex (\<lambda>e. email e = email d) eds then Inl DuplicateKey
               else Inr (d, eds @ [d]))
         else Inl ValidationError)"

fun replaceEditor :: "editor \<Rightarrow> editor list \<Rightarrow> editor list" where
  "replaceEditor d [] = []"
| "replaceEditor d (x # xs) =
     (if editor_id x = editor_id d then d # xs else x # replaceEditor d xs)"

definition Editor_save :: "editor \<Rightarrow> editor list \<Rightarrow> exn + editor list" where
  "Editor_save new eds =
     (if validateEditor new
      then (if list_ex (\<lambda>e. email e = email new \<and> editor_id e \<noteq> editor_id new) eds
            then Inl DuplicateKey
            else Inr (replaceEditor new eds))
      else Inl ValidationError)"

text \<open>\<open>Editor.findByIdAndDelete(id)\<close>: removes the first document with that id.\<close>

fun removeEditor :: "string \<Rightarrow> editor list \<Rightarrow> editor list" where
  "removeEditor k [] = []"
| "removeEditor k (x # xs) = (if editor_id x = k then xs else x # removeEditor k xs)"

definition Editor_findByIdAndDelete :: "editor list \<Rightarrow> string \<Rightarrow> exn + (editor option \<times> editor list)" where
  "Editor_findByIdAndDelete eds ident =
     (case castObjectId ident of
        None \<Rightarrow> Inl CastError
      | Some k \<Rightarrow> Inr (find (\<lambda>e. editor_id e = k) eds, removeEditor k eds))"

section \<open>Authentication (config/auth.js, middleware/auth.js, routes/authRoutes.js)\<close>

text \<open>
  \<open>generateToken\<close> signs the claims \<open>id\<close>, \<open>email\<close> and \<open>role\<close>; \<open>authMiddleware\<close>
  verifies the token and stores the claims as \<open>req.user\<close>. Signing and verification
  are opaque: a handler below receives the verified claims. The numeric \<open>iat\<close> and
  \<open>exp\<close> claims, which no handler reads, are left out.
\<close>

record payload =
  p_id :: string
  p_email :: string
  p_role :: string

definition generateToken :: "editor \<Rightarrow> payload" where
  "generateToken user = \<lparr>p_id = editor_id user, p_email = email user, p_role = role user\<rparr>"

text \<open>
  Reading a property of \<open>req.user\<close> by name: a name that is not a claim gives
  \<open>undefined\<close>, and \<open>String(undefined)\<close> is the string \<open>"undefined"\<close>.
\<close>

datatype jsval = JUndefined | JString string

definition userProp :: "payload \<Rightarrow> string \<Rightarrow> jsval" where
  "userProp user key =
     (if key = ''id'' then JString (p_id user)
      else if key = ''email'' then JString (p_email user)
      else if key = ''role'' then JString (p_role user)
      else JUndefined)"

definition String_js :: "jsval \<Rightarrow> string" where
  "String_js v = (case v of JUndefined \<Rightarrow> ''undefined'' | JString s \<Rightarrow> s)"

record loginBody =
  l_email :: "string option"
  l_password :: "string option"

text \<open>
  \<open>POST /login\<close>. \<open>comparePassword\<close> (bcrypt) is a parameter. An absent email makes
  \<open>email.toLowerCase()\<close> throw, an absent password makes bcrypt throw.
\<close>

definition login :: "(string \<Rightarrow> string \<Rightarrow> bool) \<Rightarrow> loginBody \<Rightarrow> db \<Rightarrow> (payload \<times> editor) reply" where
  "login comparePassword body d =
     (case l_email body of
        None \<Rightarrow> Inl serverError
      | Some em \<Rightarrow>
          (case Editor_findOne_email (editors d) (toLowerCase em) of
             None \<Rightarrow> Inl (401, ''Invalid credentials'')
           | Some user \<Rightarrow>
               (case l_password body of
                  None \<Rightarrow> Inl serverError
                | Some pw \<Rightarrow>
                    if comparePassword pw (password user) then Inr (generateToken user, user)
                    else Inl (401, ''Invalid credentials''))))"

section \<open>Editor routes (routes/editorRoutes.js)\<close>

record articleBody =
  b_title :: "string option"
  b_summary :: "string option"
  b_content :: "string option"
  b_categories :: catInput
  b_imageUrl :: "string option"
  b_source :: "string option"
  b_status :: "string option"

text \<open>
  \<open>POST /articles\<close>. The fresh \<open>_id\<close> and the current time are parameters.
\<close>

definition createArticle :: "string \<Rightarrow> nat \<Rightarrow> payload \<Rightarrow> articleBody \<Rightarrow> db \<Rightarrow> article reply \<times> db" where
  "createArticle newId now user body d =
     (if falsy (b_title body) \<or> falsy (b_content body)
      then (Inl (400, ''Title and content are required''), d)
      else
        (let cats = normalizeCategories (b_categories body) in
         case Article_create
                \<lparr>article_id = newId,
                 title = the (b_title body),
                 summary = orElse (b_summary body) [],
                 content = the (b_content body),
                 categories = cats,
                 imageUrl = orElse (b_imageUrl body) [],
                 source = orElse (b_source body) [],
                 status = orElse (b_status body) ''draft'',
                 author = p_id user,
                 publishedAt = (if b_status body = Some ''published'' then Some now else None),
                 createdAt = now\<rparr>
                (articles d) of
           Inl _ \<Rightarrow> (Inl serverError, d)
         | Inr (a, arts) \<Rightarrow> (Inr a, d\<lparr>articles := arts\<rparr>)))"

definition allowed :: "string list" where
  "allowed = [''draft'', ''in_review'', ''published'']"

text \<open>\<open>await article.save()\<close> followed by the success answer, inside the handler's \<open>try\<close>.\<close>

definition saveArticle :: "article \<Rightarrow> db \<Rightarrow> article reply \<times> db" where
  "saveArticle new d =
     (case Article_save new (articles d) of
        Inl _ \<Rightarrow> (Inl serverError, d)
      | Inr arts \<Rightarrow> (Inr new, d\<lparr>articles := arts\<rparr>))"

text \<open>\<open>PUT /articles/:id\<close>: partial update of an article of the caller.\<close>

definition updateArticle :: "nat \<Rightarrow> payload \<Rightarrow> string \<Rightarrow> articleBody \<Rightarrow> db \<Rightarrow> article reply \<times> db" where
  "updateArticle now user ident body d =
     (case Article_findOne_author (articles d) ident (p_id user) of
        Inl _ \<Rightarrow> (Inl serverError, d)
      | Inr None \<Rightarrow> (Inl (404, ''Article not found''), d)
      | Inr (Some a) \<Rightarrow>
          (let a1 = (case b_title body of None \<Rightarrow> a | Some t \<Rightarrow> a\<lparr>title := trim t\<rparr>);
               a2 = (case b_summary body of None \<Rightarrow> a1 | Some t \<Rightarrow> a1\<lparr>summary := trim t\<rparr>);
               a3 = (case b_content body of None \<Rightarrow> a2 | Some t \<Rightarrow> a2\<lparr>content := t\<rparr>);
               a4 = (case b_imageUrl body of None \<Rightarrow> a3 | Some t \<Rightarrow> a3\<lparr>imageUrl := trim t\<rparr>);
               a5 = (case b_source body of None \<Rightarrow> a4 | Some t \<Rightarrow> a4\<lparr>source := trim t\<rparr>);
               a6 = (if b_categories body = CatsAbsent then a5
                     else a5\<lparr>categories := map setCategory (normalizeCategories (b_categories body))\<rparr>)
           in case b_status body of
                None \<Rightarrow> saveArticle a6 d
              | Some st \<Rightarrow>
                  if st \<in> set allowed
                  then (let a7 = a6\<lparr>status := st\<rparr>;
                            a8 = (if st = ''published'' \<and> publishedAt a7 = None
                                  then a7\<lparr>publishedAt := Some now\<rparr> else a7)
                        in saveArticle a8 d)
                  else (Inl (400, ''Invalid status value''), d)))"

text \<open>\<open>GET /articles/:id\<close> of the editor routes.\<close>

definition getOwnArticle :: "payload \<Rightarrow> string \<Rightarrow> db \<Rightarrow> article reply" where
  "getOwnArticle user ident d =
     (case Article_findOne_author (articles d) ident (p_id user) of
        Inl _ \<Rightarrow> Inl serverError
      | Inr None \<Rightarrow> Inl (404, ''Article not found'')
      | Inr (Some a) \<Rightarrow> Inr a)"

record profileBody =
  b_name :: "string option"
  b_email :: "string option"
  b_password :: "string option"
  b_role :: "string option"

definition saveEditor :: "editor \<Rightarrow> db \<Rightarrow> editor reply \<times> db" where
  "saveEditor new d =
     (case Editor_save new (editors d) of
        Inl _ \<Rightarrow> (Inl serverError, d)
      | Inr eds \<Rightarrow> (Inr new, d\<lparr>editors := eds\<rparr>))"

text \<open>\<open>PUT /me\<close>: the caller changes the own name and email.\<close>

definition updateMe :: "payload \<Rightarrow> profileBody \<Rightarrow> db \<Rightarrow> editor reply \<times> db" where
  "updateMe user body d =
     (case Editor_findById (editors d) (p_id user) of
        Inl _ \<Rightarrow> (Inl serverError, d)
      | Inr None \<Rightarrow> (Inl (404, ''Editor not found''), d)
      | Inr (Some ed) \<Rightarrow>
          (if \<not> falsy (b_email body) \<and> the (b_email body) \<noteq> email ed
           then (case Editor_findOne_email_ne (editors d) (the (b_email body)) (editor_id ed) of
                   Some _ \<Rightarrow> (Inl (400, ''Email is already in use by another user''), d)
                 | None \<Rightarrow>
                     (let e1 = ed\<lparr>email := trim (the (b_email body))\<rparr>;
                          e2 = (if falsy (b_name body) then e1 else e1\<lparr>name := trim (the (b_name body))\<rparr>)
                      in saveEditor e2 d))
           else (let e2 = (if falsy (b_name body) then ed else ed\<lparr>name := trim (the (b_name body))\<rparr>)
                 in saveEditor e2 d)))"



section \<open>Admin routes (routes/adminRoutes.js)\<close>

text \<open>\<open>requireAdmin\<close>: the guard in front of every admin handler.\<close>

definition requireAdmin :: "payload \<Rightarrow> bool" where
  "requireAdmin user = (p_role user = ''admin'')"

definition adminOnly :: "nat \<times> string" where
  "adminOnly = (403, ''Admin access only'')"

text \<open>
  \<open>POST /editors\<close>. Only name, email and password are read from the body; the fresh
  \<open>_id\<close> and \<open>hashPassword\<close> are parameters.
\<close>

definition createEditor ::
  "string \<Rightarrow> (string \<Rightarrow> string) \<Rightarrow> payload \<Rightarrow> profileBody \<Rightarrow> db \<Rightarrow> editor reply \<times> db" where
  "createEditor newId hashPassword user body d =
     (if \<not> requireAdmin user then (Inl adminOnly, d)
      else if falsy (b_name body) \<or> falsy (b_email body) \<or> falsy (b_password body)
      then (Inl (400, ''Name, email and password are required''), d)
      else
        (case Editor_findOne_email (editors d) (the (b_email body)) of
           Some _ \<Rightarrow> (Inl (400, ''Email already in use''), d)
         | None \<Rightarrow>
             (case Editor_create
                     \<lparr>editor_id = newId,
                      name = the (b_name body),
                      email = the (b_email body),
                      password = hashPassword (the (b_password body)),
                      role = ''user''\<rparr>
                     (editors d) of
                Inl _ \<Rightarrow> (Inl serverError, d)
              | Inr (ed, eds) \<Rightarrow> (Inr ed, d\<lparr>editors := eds\<rparr>))))"

text \<open>\<open>PUT /editors/:id\<close>: name, email and role of any account.\<close>

definition updateEditor :: "payload \<Rightarrow> string \<Rightarrow> profileBody \<Rightarrow> db \<Rightarrow> editor reply \<times> db" where
  "updateEditor user ident body d =
     (if \<not> requireAdmin user then (Inl adminOnly, d)
      else
        (case Editor_findById (editors d) ident of
           Inl _ \<Rightarrow> (Inl serverError, d)
         | Inr None \<Rightarrow> (Inl (404, ''Editor not found''), d)
         | Inr (Some ed) \<Rightarrow>
             (if \<not> falsy (b_email body) \<and> the (b_email body) \<noteq> email ed
              then (case Editor_findOne_email_ne (editors d) (the (b_email body)) (editor_id ed) of
                      Some _ \<Rightarrow> (Inl (400, ''Email is already used by another user''), d)
                    | None \<Rightarrow>
                        (let e1 = ed\<lparr>email := trim (the (b_email body))\<rparr>;
                             e2 = (if falsy (b_name body) then e1 else e1\<lparr>name := trim (the (b_name body))\<rparr>);
                             e3 = (if falsy (b_role body) then e2 else e2\<lparr>role := the (b_role body)\<rparr>)
                         in saveEditor e3 d))
              else (let e2 = (if falsy (b_name body) then ed else ed\<lparr>name := trim (the (b_name body))\<rparr>);
                        e3 = (if falsy (b_role body) then e2 else e2\<lparr>role := the (b_role body)\<rparr>)
                    in saveEditor e3 d))))"

text \<open>
  \<open>PUT /editors/:id/reset-password\<close>. The value of \<open>generateRandomPassword()\<close> is the
  parameter \<open>newPwd\<close>; the answer carries the email and the new password.
\<close>

definition resetPassword ::
  "string \<Rightarrow> (string \<Rightarrow> string) \<Rightarrow> payload \<Rightarrow> string \<Rightarrow> db \<Rightarrow> (string \<times> string) reply \<times> db" where
  "resetPassword newPwd hashPassword user ident d =
     (if \<not> requireAdmin user then (Inl adminOnly, d)
      else
        (case Editor_findById (editors d) ident of
           Inl _ \<Rightarrow> (Inl serverError, d)
         | Inr None \<Rightarrow> (Inl (404, ''Editor not found''), d)
         | Inr (Some ed) \<Rightarrow>
             (case saveEditor (ed\<lparr>password := hashPassword newPwd\<rparr>) d of
                (Inl e, d') \<Rightarrow> (Inl e, d')
              | (Inr ed', d') \<Rightarrow> (Inr (email ed', newPwd), d'))))"

text \<open>
  \<open>DELETE /editors/:id\<close>. The guard reads \<open>req.user._id\<close> and compares
  \<open>String(req.user._id)\<close> with \<open>String(editorId)\<close>.
\<close>

definition deleteEditor :: "payload \<Rightarrow> string \<Rightarrow> db \<Rightarrow> string reply \<times> db" where
  "deleteEditor user editorId d =
     (if \<not> requireAdmin user then (Inl adminOnly, d)
      else if String_js (userProp user ''_id'') = String_js (JString editorId)
      then (Inl (400, ''You cannot delete your own admin account''), d)
      else
        (case Editor_findByIdAndDelete (editors d) editorId of
           Inl _ \<Rightarrow> (Inl serverError, d)
         | Inr (None, _) \<Rightarrow> (Inl (404, ''Editor not found''), d)
         | Inr (Some _, eds) \<Rightarrow> (Inr ''Editor deleted successfully'', d\<lparr>editors := eds\<rparr>)))"

text \<open>\<open>populate("author", "name email")\<close>: the referenced account, if it exists.\<close>

definition populateAuthor :: "editor list \<Rightarrow> article \<Rightarrow> (string \<times> string) option" where
  "populateAuthor eds a = map_option (\<lambda>e. (name e, email e)) (find (\<lambda>e. editor_id e = author a) eds)"

text \<open>\<open>GET /articles/:id\<close> of the admin routes.\<close>

definition adminGetArticle :: "payload \<Rightarrow> string \<Rightarrow> db \<Rightarrow> (article \<times> (string \<times> string) option) reply" where
  "adminGetArticle user ident d =
     (if \<not> requireAdmin user then Inl adminOnly
      else if \<not> isValid ident then Inl (404, ''Article not found'')
      else
        (case Article_findById (articles d) ident of
           Inl _ \<Rightarrow> Inl serverError
         | Inr None \<Rightarrow> Inl (404, ''Article not found'')
         | Inr (Some a) \<Rightarrow> Inr (a, populateAuthor (editors d) a)))"

text \<open>\<open>PUT /articles/:id/status\<close>: the status body field may be absent.\<close>

definition setStatus :: "nat \<Rightarrow> payload \<Rightarrow> string \<Rightarrow> string option \<Rightarrow> db \<Rightarrow> article reply \<times> db" where
  "setStatus now user ident st d =
     (if \<not> requireAdmin user then (Inl adminOnly, d)
      else if (case st of None \<Rightarrow> True | Some s \<Rightarrow> s \<notin> set allowed)
      then (Inl (400, ''Invalid status value supplied''), d)
      else if \<not> isValid ident then (Inl (404, ''Article not found''), d)
      else
        (case Article_findById (articles d) ident of
           Inl _ \<Rightarrow> (Inl serverError, d)
         | Inr None \<Rightarrow> (Inl (404, ''Article not found''), d)
         | Inr (Some a) \<Rightarrow>
             (let a1 = a\<lparr>status := the st\<rparr>;
                  a2 = (if the st = ''published'' then a1\<lparr>publishedAt := Some now\<rparr> else a1)
              in saveArticle a2 d)))"

section \<open>Public routes (routes/publicRoutes.js)\<close>

text \<open>
  \<open>sort({publishedAt: -1, createdAt: -1})\<close>: newest first, a missing \<open>publishedAt\<close>
  after every date. The order among equal keys is left to the store; here the earlier
  document stays first.
\<close>

definition dateKey :: "nat option \<Rightarrow> nat" where
  "dateKey t = (case t of None \<Rightarrow> 0 | Some n \<Rightarrow> Suc n)"

definition comesBefore :: "article \<Rightarrow> article \<Rightarrow> bool" where
  "comesBefore a b =
     (dateKey (publishedAt b) < dateKey (publishedAt a)
      \<or> (dateKey (publishedAt a) = dateKey (publishedAt b) \<and> createdAt b \<le> createdAt a))"

fun insertArticle :: "article \<Rightarrow> article list \<Rightarrow> article list" where
  "insertArticle a [] = [a]"
| "insertArticle a (b # bs) = (if comesBefore a b then a # b # bs else b # insertArticle a bs)"

definition sortPublished :: "article list \<Rightarrow> article list" where
  "sortPublished xs = foldr insertArticle xs []"

text \<open>
  \<open>select("title summary content imageUrl categories source publishedAt createdAt
  author")\<close> with \<open>populate("author", "name")\<close>: the projection of the public list
  (the \<open>_id\<close> is always included, the status is not).
\<close>

record publicView =
  v_id :: string
  v_title :: string
  v_summary :: string
  v_content :: string
  v_imageUrl :: string
  v_categories :: "string list"
  v_source :: string
  v_publishedAt :: "nat option"
  v_createdAt :: nat
  v_author :: "string option"

definition selectPublic :: "editor list \<Rightarrow> article \<Rightarrow> publicView" where
  "selectPublic eds a =
     \<lparr>v_id = article_id a, v_title = title a, v_summary = summary a, v_content = content a,
      v_imageUrl = imageUrl a, v_categories = categories a, v_source = source a,
      v_publishedAt = publishedAt a, v_createdAt = createdAt a,
      v_author = map_option fst (populateAuthor eds a)\<rparr>"

text \<open>
  \<open>new RegExp(pattern, "i")\<close> is the parameter \<open>regExp\<close>: \<open>None\<close> when the pattern is
  not a regular expression (a \<open>SyntaxError\<close>), otherwise the test it compiles to.
\<close>

definition compileFilter ::
  "(string \<Rightarrow> (string \<Rightarrow> bool) option) \<Rightarrow> string option \<Rightarrow> (string \<Rightarrow> string) \<Rightarrow> exn + (string \<Rightarrow> bool)" where
  "compileFilter regExp param pat =
     (if falsy param then Inr (\<lambda>_. True)
      else (case regExp (pat (the param)) of None \<Rightarrow> Inl SyntaxError | Some m \<Rightarrow> Inr m))"

text \<open>\<open>GET /articles\<close> of the public routes.\<close>

definition listPublished ::
  "(string \<Rightarrow> (string \<Rightarrow> bool) option) \<Rightarrow> string option \<Rightarrow> string option \<Rightarrow> db \<Rightarrow> publicView list reply" where
  "listPublished regExp category search d =
     (case compileFilter regExp category (\<lambda>c. ''^'' @ c @ ''$'') of
        Inl _ \<Rightarrow> Inl serverError
      | Inr catRegex \<Rightarrow>
          (case compileFilter regExp search (\<lambda>s. s) of
             Inl _ \<Rightarrow> Inl serverError
           | Inr searchRegex \<Rightarrow>
               Inr (map (selectPublic (editors d))
                      (sortPublished
                         (filter (\<lambda>a. status a = ''published''
                                      \<and> (if falsy category then True else list_ex catRegex (categories a))
                                      \<and> (if falsy search then True else searchRegex (title a)))
                            (articles d))))))"

text \<open>\<open>GET /articles/:id\<close> of the public routes.\<close>

definition publicGetArticle :: "string \<Rightarrow> db \<Rightarrow> (article \<times> string option) reply" where
  "publicGetArticle ident d =
     (case Article_findOne_published (articles d) ident of
        Inl _ \<Rightarrow> Inl serverError
      | Inr None \<Rightarrow> Inl (404, ''Article not found'')
      | Inr (Some a) \<Rightarrow> Inr (a, map_option fst (populateAuthor (editors d) a)))"

section \<open>Bootstrap (index.js)\<close>


section \<open>Accounts holding the admin role\<close>


section \<open>A small store for concrete runs\<close>

definition exAdminId :: string where
  "exAdminId = ''aaaaaaaaaaaaaaaaaaaaaaaa''"

definition exBobId :: string where
  "exBobId = ''bbbbbbbbbbbbbbbbbbbbbbbb''"

definition exArticleId :: string where
  "exArticleId = ''cccccccccccccccccccccccc''"

definition exDraftId :: string where
  "exDraftId = ''eeeeeeeeeeeeeeeeeeeeeeee''"

definition exNewId :: string where
  "exNewId = ''dddddddddddddddddddddddd''"

definition exAdmin :: editor where
  "exAdmin = \<lparr>editor_id = exAdminId, name = ''Root'', email = ''root@x.io'',
              password = ''$h1'', role = ''admin''\<rparr>"

definition exBob :: editor where
  "exBob = \<lparr>editor_id = exBobId, name = ''Bob'', email = ''bob@x.io'',
            password = ''$h2'', role = ''user''\<rparr>"

definition exArticle :: article where
  "exArticle = \<lparr>article_id = exArticleId, title = ''T'', summary = ''S'', content = ''C'',
                categories = [''tech''], imageUrl = [], source = [], status = ''published'',
                author = exBobId, publishedAt = Some 100, createdAt = 50\<rparr>"

definition exDraft :: article where
  "exDraft = exArticle\<lparr>article_id := exDraftId, title := ''D'', status := ''draft'',
                       publishedAt := None, createdAt := 60\<rparr>"


definition exCreated :: article where
  "exCreated = \<lparr>article_id = exNewId, title = ''A'', summary = [], content = ''B'',
                categories = [''latest''], imageUrl = [], source = [], status = ''published'',
                author = exBobId, publishedAt = Some 300, createdAt = 300\<rparr>"

definition exDb :: db where
  "exDb = \<lparr>articles = [exArticle, exDraft], editors = [exAdmin, exBob]\<rparr>"

definition exHash :: "string \<Rightarrow> string" where
  "exHash pw = ''$'' @ pw"

definition noFields :: articleBody where
  "noFields = \<lparr>b_title = None, b_summary = None, b_content = None, b_categories = CatsAbsent,
               b_imageUrl = None, b_source = None, b_status = None\<rparr>"

definition exBobby :: editor where
  "exBobby = \<lparr>editor_id = exNewId, name = ''Bobby'', email = ''Bob@x.io'',
              password = ''$pw'', role = ''user''\<rparr>"


definition exCompare :: "string \<Rightarrow> string \<Rightarrow> bool" where
  "exCompare pw h = (h = exHash pw)"

definition exRegExp :: "string \<Rightarrow> (string \<Rightarrow> bool) option" where
  "exRegExp p = (if p = ''^Tech$'' then Some (\<lambda>s. toLowerCase s = ''tech'') else None)"

definition noProfile :: profileBody where
  "noProfile = \<lparr>b_name = None, b_email = None, b_password = None, b_role = None\<rparr>"

section \<open>Properties of the string functions and of the normalisation\<close>

lemma lowerChar_idem: "lowerChar (lowerChar c) = lowerChar c"
  by (auto simp: lowerChar_def isUpper_def Let_def)

lemma isSpace_lowerChar: "isSpace (lowerChar c) = isSpace c"
  by (auto simp: lowerChar_def isUpper_def isSpace_def Let_def)

lemma toLowerCase_idem: "toLowerCase (toLowerCase s) = toLowerCase s"
  by (simp add: toLowerCase_def lowerChar_idem)

lemma dropWhile_isSpace_lower:
  "dropWhile isSpace (map lowerChar s) = map lowerChar (dropWhile isSpace s)"
  by (induction s) (simp_all add: isSpace_lowerChar)

lemma toLowerCase_trim: "toLowerCase (trim s) = trim (toLowerCase s)"
  by (simp add: toLowerCase_def trim_def rev_map dropWhile_isSpace_lower)

lemma last_dropWhile: "dropWhile P xs \<noteq> [] \<Longrightarrow> last (dropWhile P xs) = last xs"
  by (induction xs) (auto split: if_splits)

lemma trim_head: "trim s \<noteq> [] \<Longrightarrow> \<not> isSpace (hd (trim s))"
proof -
  assume ne: "trim s \<noteq> []"
  let ?t = "dropWhile isSpace s"
  let ?u = "dropWhile isSpace (rev ?t)"
  from ne have u: "?u \<noteq> []" by (simp add: trim_def)
  then have t: "?t \<noteq> []" by (metis dropWhile.simps(1) rev.simps(1))
  have "hd (trim s) = last ?u" using u by (simp add: trim_def hd_rev)
  also have "\<dots> = last (rev ?t)" using u by (rule last_dropWhile)
  also have "\<dots> = hd ?t" using t by (simp add: last_rev)
  finally show ?thesis using t hd_dropWhile by metis
qed

lemma trim_idem: "trim (trim s) = trim s"
proof -
  let ?u = "dropWhile isSpace (rev (dropWhile isSpace s))"
  have "dropWhile isSpace (trim s) = trim s"
    using trim_head [of s] by (cases "trim s") auto
  moreover have "rev (trim s) = ?u" by (simp add: trim_def)
  ultimately show ?thesis
    by (metis dropWhile_idem trim_def)
qed

lemma setCategory_idem: "setCategory (setCategory c) = setCategory c"
  by (simp add: setCategory_def toLowerCase_trim toLowerCase_idem trim_idem)

lemma set_foldl_setAdd: "set (foldl setAdd acc xs) = set acc \<union> set xs"
  by (induction xs arbitrary: acc) (auto simp: setAdd_def)

lemma distinct_foldl_setAdd: "distinct acc \<Longrightarrow> distinct (foldl setAdd acc xs)"
  by (induction xs arbitrary: acc) (auto simp: setAdd_def)

lemma set_newSet: "set (newSet xs) = set xs"
  by (simp add: newSet_def set_foldl_setAdd)

lemma distinct_newSet: "distinct (newSet xs)"
  by (simp add: newSet_def distinct_foldl_setAdd)

lemma normalizeCategories_nonempty: "normalizeCategories input \<noteq> []"
  by (simp add: normalizeCategories_def Let_def)

lemma normalizeCategories_distinct: "distinct (normalizeCategories input)"
  by (simp add: normalizeCategories_def Let_def distinct_newSet)

lemma normalizeCategories_set: "c \<in> set (normalizeCategories input) \<Longrightarrow> setCategory c = c"
proof -
  assume "c \<in> set (normalizeCategories input)"
  then consider "c = ''latest''" | c0 where "c = setCategory c0"
    by (auto simp: normalizeCategories_def Let_def set_newSet setCategory_def split: if_splits)
  then show ?thesis
  proof cases
    case 1
    have "setCategory ''latest'' = ''latest''" by code_simp
    with 1 show ?thesis by simp
  next
    case 2
    then show ?thesis by (simp add: setCategory_idem)
  qed
qed

lemma map_setCategory_normalize: "map setCategory (normalizeCategories input) = normalizeCategories input"
  by (simp add: map_idI normalizeCategories_set)

lemma setCategory_trimmed: "setCategory c = c \<Longrightarrow> trim c = c \<and> toLowerCase c = c"
proof -
  assume h: "setCategory c = c"
  have "trim (setCategory c) = setCategory c"
    by (simp add: setCategory_def trim_idem)
  moreover have "toLowerCase (setCategory c) = setCategory c"
    by (simp add: setCategory_def toLowerCase_trim [symmetric] toLowerCase_idem)
  ultimately show ?thesis using h by simp
qed

lemma setCategory_trim_nonempty: "trim p \<noteq> [] \<Longrightarrow> setCategory (trim p) \<noteq> []"
proof -
  assume ne: "trim p \<noteq> []"
  have "setCategory (trim p) = toLowerCase (trim p)"
    by (simp add: setCategory_def toLowerCase_trim [symmetric] trim_idem)
  with ne show ?thesis by (simp add: toLowerCase_def)
qed

lemma normalizeCategories_string_no_empty: "[] \<notin> set (normalizeCategories (CatsString s))"
proof
  assume "[] \<in> set (normalizeCategories (CatsString s))"
  then have "[] \<in> setCategory ` set (filter truthy (map trim (split_comma s)))"
    by (simp add: normalizeCategories_def Let_def set_newSet setCategory_def split: if_splits)
  then obtain p where "trim p \<noteq> []" "setCategory (trim p) = []"
    by (auto simp: truthy_def)
  then show False using setCategory_trim_nonempty by blast
qed

section \<open>Facts about the store operations\<close>

lemma trim_Nil: "trim [] = []"
  by (simp add: trim_def)

lemma allowed_STATUSES: "allowed = STATUSES"
  by (simp add: allowed_def STATUSES_def)

lemma castObjectId_abc: "castObjectId ''abc'' = None"
  by code_simp

lemma unique_by_id:
  "distinct (map article_id arts) \<Longrightarrow> a \<in> set arts \<Longrightarrow> x \<in> set arts \<Longrightarrow>
     article_id x = article_id a \<Longrightarrow> x = a"
  by (meson distinct_map inj_onD)

lemma find_other_owner:
  assumes "distinct (map article_id arts)" and "a \<in> set arts" and "author a \<noteq> u"
  shows "find (\<lambda>x. article_id x = article_id a \<and> author x = u) arts = None"
  using assms unique_by_id [of arts a] by (auto simp: find_None_iff)

lemma find_absent_id:
  assumes "k \<notin> article_id ` set arts"
  shows "find (\<lambda>x. article_id x = k \<and> P x) arts = None"
  using assms by (auto simp: find_None_iff)

lemma set_insertArticle: "set (insertArticle a xs) = insert a (set xs)"
  by (induction xs) auto

lemma set_sortPublished: "set (sortPublished xs) = set xs"
  by (induction xs) (simp_all add: sortPublished_def set_insertArticle)

section \<open>Publication timestamp\<close>

text \<open>
  C1. Claim: once \<open>publishedAt\<close> is set, no later status transition, by the owner's
  update or by the admin status operation, changes it. The admin operation does not
  keep it: on the stored article \<open>exArticle\<close>, published with \<open>publishedAt = 100\<close>,
  the admin call \<open>setStatus\<close> with status \<open>published\<close> at time 200 answers with
  \<open>publishedAt = 200\<close> and stores that value.
\<close>

theorem setStatus_restamps_publishedAt:
  "publishedAt exArticle = Some 100
   \<and> setStatus 200 (generateToken exAdmin) exArticleId (Some ''published'') exDb
       = (Inr (exArticle\<lparr>publishedAt := Some 200\<rparr>),
          exDb\<lparr>articles := [exArticle\<lparr>publishedAt := Some 200\<rparr>, exDraft]\<rparr>)"
  by code_simp

section \<open>Category normalisation\<close>

text \<open>
  C2. Claim: for every category input the result is non-empty, trimmed, lowercase and
  deduplicated, with empty candidates dropped. For an array input the empty candidates
  stay: \<open>[""]\<close> gives \<open>[""]\<close>, and \<open>[" ", "Tech"]\<close> gives \<open>["", "tech"]\<close>, while
  the string \<open>" , Tech"\<close> gives \<open>["tech"]\<close>.
\<close>

theorem normalizeCategories_array_keeps_empty:
  "normalizeCategories (CatsArray ['''']) = ['''']
   \<and> normalizeCategories (CatsArray ['' '', ''Tech'']) = ['''', ''tech'']
   \<and> normalizeCategories (CatsString '' , Tech'') = [''tech'']
   \<and> normalizeCategories (CatsArray []) = [''latest'']
   \<and> normalizeCategories (CatsString []) = [''latest'']"
  by code_simp

section \<open>Ownership isolation\<close>

text \<open>
  C3. In a store with unique article ids, an update of an article by a caller who is
  not its author answers 404 \<open>Article not found\<close> and leaves the store unchanged; the
  same request against any store \<open>d'\<close> that holds no article with that id gets the
  same answer.
\<close>

theorem update_other_owner_not_found:
  assumes "distinct (map article_id (articles d))"
    and "a \<in> set (articles d)"
    and "castObjectId ident = Some (article_id a)"
    and "castObjectId (p_id user) = Some caller"
    and "author a \<noteq> caller"
    and "article_id a \<notin> article_id ` set (articles d')"
  shows "updateArticle now user ident body d = (Inl (404, ''Article not found''), d)
       \<and> updateArticle now user ident body d' = (Inl (404, ''Article not found''), d')"
proof -
  have "Article_findOne_author (articles d) ident (p_id user) = Inr None"
    using assms(1-5) by (simp add: Article_findOne_author_def find_other_owner)
  moreover have "Article_findOne_author (articles d') ident (p_id user) = Inr None"
    using assms(3,4,6) by (simp add: Article_findOne_author_def find_absent_id)
  ultimately show ?thesis by (simp add: updateArticle_def)
qed

theorem update_other_owner_not_found_witness:
  "distinct (map article_id (articles exDb))
   \<and> exArticle \<in> set (articles exDb)
   \<and> castObjectId exArticleId = Some (article_id exArticle)
   \<and> castObjectId (p_id (generateToken exAdmin)) = Some exAdminId
   \<and> author exArticle \<noteq> exAdminId
   \<and> article_id exArticle \<notin> article_id ` set (articles (exDb\<lparr>articles := [exDraft]\<rparr>))
   \<and> updateArticle 200 (generateToken exAdmin) exArticleId (noFields\<lparr>b_title := Some ''X''\<rparr>) exDb
        = (Inl (404, ''Article not found''), exDb)
   \<and> updateArticle 200 (generateToken exAdmin) exArticleId (noFields\<lparr>b_title := Some ''X''\<rparr>)
        (exDb\<lparr>articles := [exDraft]\<rparr>)
        = (Inl (404, ''Article not found''), exDb\<lparr>articles := [exDraft]\<rparr>)"
proof -
  have h1: "distinct (map article_id (articles exDb))" by code_simp
  have h2: "exArticle \<in> set (articles exDb)" by (simp add: exDb_def)
  have h3: "castObjectId exArticleId = Some (article_id exArticle)" by code_simp
  have h4: "castObjectId (p_id (generateToken exAdmin)) = Some exAdminId" by code_simp
  have h5: "author exArticle \<noteq> exAdminId" by code_simp
  have h6: "article_id exArticle \<notin> article_id ` set (articles (exDb\<lparr>articles := [exDraft]\<rparr>))"
    by code_simp
  show ?thesis
    using h1 h2 h3 h4 h5 h6 update_other_owner_not_found [OF h1 h2 h3 h4 h5 h6]
    by simp
qed

section \<open>Public visibility\<close>

text \<open>
  C4. Every entry of the public list is the projection of a stored article whose status
  is \<open>published\<close>; the public single read returns only a stored published article, and
  for a stored article that is not published (ids unique) it answers 404
  \<open>Article not found\<close>.
\<close>

theorem public_reads_only_published:
  "(listPublished regExp category search d = Inr views \<longrightarrow>
      (\<forall>v \<in> set views. \<exists>a \<in> set (articles d).
          status a = ''published'' \<and> v = selectPublic (editors d) a))
   \<and> (publicGetArticle ident d = Inr (a, n) \<longrightarrow> a \<in> set (articles d) \<and> status a = ''published'')
   \<and> (distinct (map article_id (articles d)) \<and> b \<in> set (articles d)
        \<and> castObjectId ident = Some (article_id b) \<and> status b \<noteq> ''published''
        \<longrightarrow> publicGetArticle ident d = Inl (404, ''Article not found''))"
proof (intro conjI impI)
  assume "listPublished regExp category search d = Inr views"
  then show "\<forall>v \<in> set views. \<exists>a \<in> set (articles d).
          status a = ''published'' \<and> v = selectPublic (editors d) a"
    by (auto simp: listPublished_def set_sortPublished split: sum.splits)
next
  assume r: "publicGetArticle ident d = Inr (a, n)"
  then obtain k where "find (\<lambda>x. article_id x = k \<and> status x = ''published'') (articles d) = Some a"
    by (auto simp: publicGetArticle_def Article_findOne_published_def split: option.splits)
  then have "a \<in> set (articles d) \<and> status a = ''published''"
    by (auto simp: find_Some_iff)
  then show "a \<in> set (articles d)" and "status a = ''published''" by simp_all
next
  assume h: "distinct (map article_id (articles d)) \<and> b \<in> set (articles d)
        \<and> castObjectId ident = Some (article_id b) \<and> status b \<noteq> ''published''"
  then have "find (\<lambda>x. article_id x = article_id b \<and> status x = ''published'') (articles d) = None"
    using unique_by_id [of "articles d" b] by (auto simp: find_None_iff)
  with h show "publicGetArticle ident d = Inl (404, ''Article not found'')"
    by (simp add: publicGetArticle_def Article_findOne_published_def)
qed

theorem public_reads_only_published_witness:
  "listPublished exRegExp (Some ''Tech'') None exDb = Inr [selectPublic (editors exDb) exArticle]
   \<and> (\<exists>a \<in> set (articles exDb).
          status a = ''published''
          \<and> selectPublic (editors exDb) exArticle = selectPublic (editors exDb) a)
   \<and> publicGetArticle exArticleId exDb = Inr (exArticle, Some ''Bob'')
   \<and> exArticle \<in> set (articles exDb) \<and> status exArticle = ''published''
   \<and> distinct (map article_id (articles exDb)) \<and> exDraft \<in> set (articles exDb)
   \<and> castObjectId exDraftId = Some (article_id exDraft) \<and> status exDraft \<noteq> ''published''
   \<and> publicGetArticle exDraftId exDb = Inl (404, ''Article not found'')"
proof -
  have l: "listPublished exRegExp (Some ''Tech'') None exDb
             = Inr [selectPublic (editors exDb) exArticle]"
    by code_simp
  have g: "publicGetArticle exArticleId exDb = Inr (exArticle, Some ''Bob'')"
    by code_simp
  have h1: "distinct (map article_id (articles exDb))" by code_simp
  have h2: "exDraft \<in> set (articles exDb)" by (simp add: exDb_def)
  have h3: "castObjectId exDraftId = Some (article_id exDraft)" by code_simp
  have h4: "status exDraft \<noteq> ''published''" by code_simp
  note t1 = public_reads_only_published
              [of exRegExp "Some ''Tech''" None exDb "[selectPublic (editors exDb) exArticle]"
                  exArticleId exArticle "Some ''Bob''" exDraft]
  note t2 = public_reads_only_published
              [of exRegExp "Some ''Tech''" None exDb "[selectPublic (editors exDb) exArticle]"
                  exDraftId exArticle "Some ''Bob''" exDraft]
  from t1 l have "\<forall>v \<in> set [selectPublic (editors exDb) exArticle]. \<exists>a \<in> set (articles exDb).
          status a = ''published'' \<and> v = selectPublic (editors exDb) a"
    by blast
  then have c1: "\<exists>a \<in> set (articles exDb).
          status a = ''published''
          \<and> selectPublic (editors exDb) exArticle = selectPublic (editors exDb) a"
    by simp
  from t1 g have c2: "exArticle \<in> set (articles exDb) \<and> status exArticle = ''published''"
    by blast
  from t2 h1 h2 h3 h4 have c3: "publicGetArticle exDraftId exDb = Inl (404, ''Article not found'')"
    by blast
  from l g c1 c2 c3 h1 h2 h3 h4 show ?thesis by blast
qed

section \<open>Self-deletion guard\<close>

text \<open>
  C5. Claim: an admin deleting the own account always fails and deletes nothing. The
  token of \<open>exAdmin\<close> carries the claims \<open>id\<close>, \<open>email\<close> and \<open>role\<close> and no
  \<open>_id\<close>, so the guard compares \<open>"undefined"\<close> with the requested id; the call with
  the admin's own id answers \<open>Editor deleted successfully\<close> and removes the account.
\<close>

theorem deleteEditor_own_account_deleted:
  "p_id (generateToken exAdmin) = exAdminId
   \<and> deleteEditor (generateToken exAdmin) exAdminId exDb
       = (Inr ''Editor deleted successfully'', exDb\<lparr>editors := [exBob]\<rparr>)"
  by code_simp

section \<open>Email uniqueness\<close>

lemma createEditor_duplicate_email:
  assumes "requireAdmin user"
    and "b_name body = Some n" and "n \<noteq> []"
    and "b_email body = Some em" and "em \<noteq> []"
    and "b_password body = Some pw" and "pw \<noteq> []"
    and "e \<in> set (editors d)" and "email e = trim em"
  shows "createEditor newId h user body d = (Inl (400, ''Email already in use''), d)"
proof -
  have "find (\<lambda>x. email x = trim em) (editors d) \<noteq> None"
    using assms(8,9) by (auto simp: find_None_iff)
  then show ?thesis
    using assms(1-7)
    by (auto simp: createEditor_def falsy_def Editor_findOne_email_def)
qed

lemma updateEditor_duplicate_email:
  assumes "requireAdmin user"
    and "Editor_findById (editors d) ident = Inr (Some ed)"
    and "b_email body = Some em" and "em \<noteq> []" and "em \<noteq> email ed"
    and "e \<in> set (editors d)" and "email e = trim em" and "editor_id e \<noteq> editor_id ed"
  shows "updateEditor user ident body d = (Inl (400, ''Email is already used by another user''), d)"
proof -
  have "find (\<lambda>x. email x = trim em \<and> editor_id x \<noteq> editor_id ed) (editors d) \<noteq> None"
    using assms(6-8) by (auto simp: find_None_iff)
  then show ?thesis
    using assms(1-5)
    by (auto simp: updateEditor_def falsy_def Editor_findOne_email_ne_def)
qed

text \<open>
  C6. Claim: creating an account with, or changing an account's email to, an email held
  by another account fails with a conflict, and the comparison lowercases as login
  does. The comparison is exact: with \<open>bob@x.io\<close> in the store, creating an account
  with \<open>Bob@x.io\<close> succeeds and stores a second account; login lowercases the email,
  finds the older account and rejects the new account's password; \<open>PUT /me\<close> accepts
  \<open>BOB@X.IO\<close> in the same way.
\<close>

theorem createEditor_case_variant_accepted:
  "Editor_findOne_email (editors exDb) ''bob@x.io'' = Some exBob
   \<and> createEditor exNewId exHash (generateToken exAdmin)
        \<lparr>b_name = Some ''Bobby'', b_email = Some ''Bob@x.io'', b_password = Some ''pw'',
         b_role = None\<rparr> exDb
       = (Inr exBobby, exDb\<lparr>editors := [exAdmin, exBob, exBobby]\<rparr>)
   \<and> login exCompare \<lparr>l_email = Some ''Bob@x.io'', l_password = Some ''pw''\<rparr>
        (exDb\<lparr>editors := [exAdmin, exBob, exBobby]\<rparr>)
       = Inl (401, ''Invalid credentials'')
   \<and> updateMe (generateToken exAdmin) (noProfile\<lparr>b_email := Some ''BOB@X.IO''\<rparr>) exDb
       = (Inr (exAdmin\<lparr>email := ''BOB@X.IO''\<rparr>),
          exDb\<lparr>editors := [exAdmin\<lparr>email := ''BOB@X.IO''\<rparr>, exBob]\<rparr>)"
  by code_simp

section \<open>Malformed identifiers\<close>

lemma requireAdmin_exAdmin: "requireAdmin (generateToken exAdmin)"
  by code_simp

lemma guard_exAdmin_abc:
  "String_js (userProp (generateToken exAdmin) ''_id'') \<noteq> String_js (JString ''abc'')"
  by code_simp

text \<open>
  C8. Claim: on every route a malformed identifier gives a not-found answer. The admin
  article routes test \<open>isValid\<close> first and answer 404; the public, editor and
  admin account routes pass the identifier \<open>abc\<close> to the store, whose cast fails, and
  answer 500 \<open>Server error\<close>.
\<close>

theorem malformed_id_server_error:
  "publicGetArticle ''abc'' d = Inl (500, ''Server error'')
   \<and> getOwnArticle user ''abc'' d = Inl (500, ''Server error'')
   \<and> updateArticle now user ''abc'' body d = (Inl (500, ''Server error''), d)
   \<and> updateEditor (generateToken exAdmin) ''abc'' pbody d = (Inl (500, ''Server error''), d)
   \<and> resetPassword pw h (generateToken exAdmin) ''abc'' d = (Inl (500, ''Server error''), d)
   \<and> deleteEditor (generateToken exAdmin) ''abc'' d = (Inl (500, ''Server error''), d)
   \<and> adminGetArticle (generateToken exAdmin) ''abc'' d = Inl (404, ''Article not found'')
   \<and> setStatus now (generateToken exAdmin) ''abc'' (Some ''draft'') d
       = (Inl (404, ''Article not found''), d)"
proof (intro conjI)
  show "publicGetArticle ''abc'' d = Inl (500, ''Server error'')"
    by (simp add: publicGetArticle_def Article_findOne_published_def castObjectId_abc
                  serverError_def)
  show "getOwnArticle user ''abc'' d = Inl (500, ''Server error'')"
    by (simp add: getOwnArticle_def Article_findOne_author_def castObjectId_abc serverError_def)
  show "updateArticle now user ''abc'' body d = (Inl (500, ''Server error''), d)"
    by (simp add: updateArticle_def Article_findOne_author_def castObjectId_abc serverError_def)
  show "updateEditor (generateToken exAdmin) ''abc'' pbody d = (Inl (500, ''Server error''), d)"
    by (simp add: updateEditor_def requireAdmin_exAdmin Editor_findById_def castObjectId_abc
                  serverError_def)
  show "resetPassword pw h (generateToken exAdmin) ''abc'' d = (Inl (500, ''Server error''), d)"
    by (simp add: resetPassword_def requireAdmin_exAdmin Editor_findById_def castObjectId_abc
                  serverError_def)
  show "deleteEditor (generateToken exAdmin) ''abc'' d = (Inl (500, ''Server error''), d)"
    using guard_exAdmin_abc
    by (simp add: deleteEditor_def requireAdmin_exAdmin Editor_findByIdAndDelete_def
                  castObjectId_abc serverError_def)
  show "adminGetArticle (generateToken exAdmin) ''abc'' d = Inl (404, ''Article not found'')"
    by (simp add: adminGetArticle_def requireAdmin_exAdmin isValid_def castObjectId_abc)
  show "setStatus now (generateToken exAdmin) ''abc'' (Some ''draft'') d
       = (Inl (404, ''Article not found''), d)"
    by (simp add: setStatus_def requireAdmin_exAdmin isValid_def castObjectId_abc allowed_def)
qed

section \<open>Partial update\<close>

lemma saveArticle_Inr:
  "saveArticle new d = (Inr a', d') \<Longrightarrow>
     a' = new \<and> d' = d\<lparr>articles := replaceArticle new (articles d)\<rparr>"
  by (auto simp: saveArticle_def Article_save_def split: sum.splits if_splits)



text \<open>The handler on an article it has found, by the status field of the request.\<close>

lemma updateArticle_found:
  assumes "Article_findOne_author (articles d) ident (p_id user) = Inr (Some a)"
  shows "updateArticle now user ident body d =
     (case b_status body of
        None \<Rightarrow>
          saveArticle
            (a\<lparr>title := (case b_title body of None \<Rightarrow> title a | Some t \<Rightarrow> trim t),
               summary := (case b_summary body of None \<Rightarrow> summary a | Some t \<Rightarrow> trim t),
               content := (case b_content body of None \<Rightarrow> content a | Some t \<Rightarrow> t),
               imageUrl := (case b_imageUrl body of None \<Rightarrow> imageUrl a | Some t \<Rightarrow> trim t),
               source := (case b_source body of None \<Rightarrow> source a | Some t \<Rightarrow> trim t),
               categories := (if b_categories body = CatsAbsent then categories a
                              else normalizeCategories (b_categories body))\<rparr>) d
      | Some st \<Rightarrow>
          if st \<in> set allowed
          then saveArticle
            (a\<lparr>title := (case b_title body of None \<Rightarrow> title a | Some t \<Rightarrow> trim t),
               summary := (case b_summary body of None \<Rightarrow> summary a | Some t \<Rightarrow> trim t),
               content := (case b_content body of None \<Rightarrow> content a | Some t \<Rightarrow> t),
               imageUrl := (case b_imageUrl body of None \<Rightarrow> imageUrl a | Some t \<Rightarrow> trim t),
               source := (case b_source body of None \<Rightarrow> source a | Some t \<Rightarrow> trim t),
               categories := (if b_categories body = CatsAbsent then categories a
                              else normalizeCategories (b_categories body)),
               status := st,
               publishedAt := (if st = ''published'' \<and> publishedAt a = None then Some now
                               else publishedAt a)\<rparr>) d
          else (Inl (400, ''Invalid status value''), d))"
  using assms
  by (cases "b_title body"; cases "b_summary body"; cases "b_content body";
      cases "b_imageUrl body"; cases "b_source body"; cases "b_status body")
     (simp_all add: updateArticle_def Let_def map_setCategory_normalize)

lemma updateArticle_saves:
  assumes found: "Article_findOne_author (articles d) ident (p_id user) = Inr (Some a)"
    and st: "b_status body = None \<or> b_status body = Some st \<and> st \<in> set allowed"
  shows "updateArticle now user ident body d =
     saveArticle
       (a\<lparr>title := (case b_title body of None \<Rightarrow> title a | Some t \<Rightarrow> trim t),
          summary := (case b_summary body of None \<Rightarrow> summary a | Some t \<Rightarrow> trim t),
          content := (case b_content body of None \<Rightarrow> content a | Some t \<Rightarrow> t),
          imageUrl := (case b_imageUrl body of None \<Rightarrow> imageUrl a | Some t \<Rightarrow> trim t),
          source := (case b_source body of None \<Rightarrow> source a | Some t \<Rightarrow> trim t),
          categories := (if b_categories body = CatsAbsent then categories a
                         else normalizeCategories (b_categories body)),
          status := (case b_status body of None \<Rightarrow> status a | Some s \<Rightarrow> s),
          publishedAt := (if b_status body = Some ''published'' \<and> publishedAt a = None
                          then Some now else publishedAt a)\<rparr>) d"
proof (cases "b_status body")
  case None
  then show ?thesis by (simp add: updateArticle_found [OF found])
next
  case (Some s)
  with st have "s \<in> set allowed" by simp
  with Some show ?thesis by (simp add: updateArticle_found [OF found])
qed

lemma updateArticle_status_cases:
  assumes found: "Article_findOne_author (articles d) ident (p_id user) = Inr (Some a)"
  shows "updateArticle now user ident body d = (Inl (400, ''Invalid status value''), d)
         \<or> b_status body = None
         \<or> b_status body = Some (the (b_status body)) \<and> the (b_status body) \<in> set allowed"
proof (cases "b_status body")
  case None
  then show ?thesis by simp
next
  case (Some s)
  then show ?thesis
    by (cases "s \<in> set allowed") (simp_all add: updateArticle_found [OF found])
qed

lemma updateArticle_status_ok:
  assumes found: "Article_findOne_author (articles d) ident (p_id user) = Inr (Some a)"
    and r: "updateArticle now user ident body d = (Inr a', d')"
  shows "b_status body = None
         \<or> b_status body = Some (the (b_status body)) \<and> the (b_status body) \<in> set allowed"
  using updateArticle_status_cases [OF found, of now body] r by auto

text \<open>
  The owner's update keeps a publication date that is already set.
\<close>

lemma updateArticle_keeps_publishedAt:
  assumes found: "Article_findOne_author (articles d) ident (p_id user) = Inr (Some a)"
    and r: "updateArticle now user ident body d = (Inr a', d')"
    and p: "publishedAt a = Some t"
  shows "publishedAt a' = Some t"
proof -
  note ok = updateArticle_status_ok [OF found r]
  note sv = saveArticle_Inr [OF r [unfolded updateArticle_saves [OF found ok]]]
  from sv p show ?thesis by simp
qed




section \<open>Article creation\<close>

lemma normalize_absent: "normalizeCategories CatsAbsent = [''latest'']"
  by code_simp

lemma latest_in_vocabulary: "list_all (\<lambda>c. c \<in> set CATEGORIES) [''latest'']"
  by code_simp

lemma draft_in_STATUSES: "''draft'' \<in> set STATUSES"
  by code_simp

lemma orElse_published: "orElse v ''draft'' = ''published'' \<longleftrightarrow> v = Some ''published''"
  by (auto simp: orElse_def split: option.splits)

lemma createArticle_result:
  assumes "createArticle newId now user body d = (Inr a, d')"
  shows "d' = d\<lparr>articles := articles d @ [a]\<rparr>
       \<and> status a = orElse (b_status body) ''draft''
       \<and> publishedAt a = (if b_status body = Some ''published'' then Some now else None)"
  using assms
  by (auto simp: createArticle_def Article_create_def Let_def
           split: if_splits option.splits sum.splits)

lemma createArticle_succeeds:
  assumes "b_title body = Some t" and "trim t \<noteq> []" and "b_content body = Some c" and "c \<noteq> []"
    and "castObjectId (p_id user) = Some au"
    and "orElse (b_status body) ''draft'' \<in> set STATUSES"
    and "list_all (\<lambda>c. c \<in> set CATEGORIES) (normalizeCategories (b_categories body))"
  shows "\<exists>a. createArticle newId now user body d = (Inr a, d\<lparr>articles := articles d @ [a]\<rparr>)
            \<and> categories a = normalizeCategories (b_categories body)
            \<and> status a = orElse (b_status body) ''draft''
            \<and> publishedAt a = (if b_status body = Some ''published'' then Some now else None)
            \<and> author a = au \<and> title a = trim t \<and> content a = c"
proof -
  have "t \<noteq> []" using assms(2) trim_Nil by blast
  then show ?thesis
    using assms
    by (simp add: createArticle_def Article_create_def Let_def falsy_def validateArticle_def
                  map_setCategory_normalize)
qed

text \<open>
  C9. A create request by a caller whose token id is an \<open>ObjectId\<close>, with a title that
  is non-empty after the schema's trimming (the precondition of create: title and content
  non-empty after normalisation), a non-empty content, no categories and no status,
  stores a new article with categories \<open>["latest"]\<close>, status \<open>draft\<close> and no
  \<open>publishedAt\<close>; with a valid status \<open>s\<close> and categories that normalise into the
  vocabulary it stores an article of status \<open>s\<close>; and whenever create stores an article,
  its status is the supplied one, or \<open>draft\<close> when none (or the empty string) is
  supplied, and \<open>publishedAt\<close> is set, to the current time, exactly when that status is
  published.
\<close>

theorem create_article_defaults:
  "(b_title body = Some t \<and> trim t \<noteq> [] \<and> b_content body = Some c \<and> c \<noteq> []
      \<and> castObjectId (p_id user) = Some au
      \<and> b_categories body = CatsAbsent \<and> b_status body = None
      \<longrightarrow> (\<exists>a. createArticle newId now user body d = (Inr a, d\<lparr>articles := articles d @ [a]\<rparr>)
               \<and> categories a = [''latest''] \<and> status a = ''draft'' \<and> publishedAt a = None
               \<and> author a = au))
   \<and> (b_title body = Some t \<and> trim t \<noteq> [] \<and> b_content body = Some c \<and> c \<noteq> []
      \<and> castObjectId (p_id user) = Some au
      \<and> b_status body = Some s \<and> s \<in> set allowed
      \<and> list_all (\<lambda>c. c \<in> set CATEGORIES) (normalizeCategories (b_categories body))
      \<longrightarrow> (\<exists>a. createArticle newId now user body d = (Inr a, d\<lparr>articles := articles d @ [a]\<rparr>)
               \<and> status a = s))
   \<and> (createArticle newId now user body d = (Inr a', d')
      \<longrightarrow> d' = d\<lparr>articles := articles d @ [a']\<rparr>
        \<and> status a' = (case b_status body of None \<Rightarrow> ''draft''
                        | Some s' \<Rightarrow> if s' = [] then ''draft'' else s')
        \<and> (publishedAt a' = Some now \<longleftrightarrow> status a' = ''published'')
        \<and> (publishedAt a' = None \<longleftrightarrow> status a' \<noteq> ''published''))"
proof (intro conjI impI)
  assume h: "b_title body = Some t \<and> trim t \<noteq> [] \<and> b_content body = Some c \<and> c \<noteq> []
      \<and> castObjectId (p_id user) = Some au
      \<and> b_categories body = CatsAbsent \<and> b_status body = None"
  then have "orElse (b_status body) ''draft'' \<in> set STATUSES"
    by (simp add: orElse_def draft_in_STATUSES)
  moreover have "list_all (\<lambda>c. c \<in> set CATEGORIES) (normalizeCategories (b_categories body))"
    using h latest_in_vocabulary by (simp add: normalize_absent)
  ultimately obtain a where
    "createArticle newId now user body d = (Inr a, d\<lparr>articles := articles d @ [a]\<rparr>)
            \<and> categories a = normalizeCategories (b_categories body)
            \<and> status a = orElse (b_status body) ''draft''
            \<and> publishedAt a = (if b_status body = Some ''published'' then Some now else None)
            \<and> author a = au \<and> title a = trim t \<and> content a = c"
    using h createArticle_succeeds [of body t c user au newId now d] by blast
  with h show "\<exists>a. createArticle newId now user body d = (Inr a, d\<lparr>articles := articles d @ [a]\<rparr>)
               \<and> categories a = [''latest''] \<and> status a = ''draft'' \<and> publishedAt a = None
               \<and> author a = au"
    by (simp add: normalize_absent orElse_def)
next
  assume h: "b_title body = Some t \<and> trim t \<noteq> [] \<and> b_content body = Some c \<and> c \<noteq> []
      \<and> castObjectId (p_id user) = Some au
      \<and> b_status body = Some s \<and> s \<in> set allowed
      \<and> list_all (\<lambda>c. c \<in> set CATEGORIES) (normalizeCategories (b_categories body))"
  then have s: "orElse (b_status body) ''draft'' = s"
    by (auto simp: orElse_def allowed_def)
  then have "orElse (b_status body) ''draft'' \<in> set STATUSES"
    using h by (simp add: allowed_STATUSES)
  then obtain a where
    "createArticle newId now user body d = (Inr a, d\<lparr>articles := articles d @ [a]\<rparr>)
            \<and> categories a = normalizeCategories (b_categories body)
            \<and> status a = orElse (b_status body) ''draft''
            \<and> publishedAt a = (if b_status body = Some ''published'' then Some now else None)
            \<and> author a = au \<and> title a = trim t \<and> content a = c"
    using h createArticle_succeeds [of body t c user au newId now d] by blast
  with s show "\<exists>a. createArticle newId now user body d = (Inr a, d\<lparr>articles := articles d @ [a]\<rparr>)
               \<and> status a = s"
    by auto
next
  assume r: "createArticle newId now user body d = (Inr a', d')"
  note res = createArticle_result [OF r]
  show "d' = d\<lparr>articles := articles d @ [a']\<rparr>" using res by simp
  show "status a' = (case b_status body of None \<Rightarrow> ''draft''
                        | Some s' \<Rightarrow> if s' = [] then ''draft'' else s')"
    using res by (simp add: orElse_def)
  show "publishedAt a' = Some now \<longleftrightarrow> status a' = ''published''"
    using res by (simp add: orElse_published)
  show "publishedAt a' = None \<longleftrightarrow> status a' \<noteq> ''published''"
    using res by (simp add: orElse_published)
qed

theorem create_article_defaults_witness:
  "(\<exists>a. createArticle exNewId 300 (generateToken exBob)
           (noFields\<lparr>b_title := Some ''A'', b_content := Some ''B''\<rparr>) exDb
         = (Inr a, exDb\<lparr>articles := articles exDb @ [a]\<rparr>)
        \<and> categories a = [''latest''] \<and> status a = ''draft'' \<and> publishedAt a = None
        \<and> author a = exBobId)
   \<and> (\<exists>a. createArticle exNewId 300 (generateToken exBob)
           (noFields\<lparr>b_title := Some ''A'', b_content := Some ''B'', b_status := Some ''published''\<rparr>)
           exDb
         = (Inr a, exDb\<lparr>articles := articles exDb @ [a]\<rparr>)
        \<and> status a = ''published'')
   \<and> createArticle exNewId 300 (generateToken exBob)
        (noFields\<lparr>b_title := Some ''A'', b_content := Some ''B'', b_status := Some ''published''\<rparr>)
        exDb
       = (Inr exCreated, exDb\<lparr>articles := [exArticle, exDraft, exCreated]\<rparr>)
   \<and> status exCreated = ''published'' \<and> publishedAt exCreated = Some 300"
proof -
  have p1: "b_title (noFields\<lparr>b_title := Some ''A'', b_content := Some ''B''\<rparr>) = Some ''A''
      \<and> trim ''A'' \<noteq> []
      \<and> b_content (noFields\<lparr>b_title := Some ''A'', b_content := Some ''B''\<rparr>) = Some ''B''
      \<and> ''B'' \<noteq> []
      \<and> castObjectId (p_id (generateToken exBob)) = Some exBobId
      \<and> b_categories (noFields\<lparr>b_title := Some ''A'', b_content := Some ''B''\<rparr>) = CatsAbsent
      \<and> b_status (noFields\<lparr>b_title := Some ''A'', b_content := Some ''B''\<rparr>) = None"
    by code_simp
  have p2: "b_title (noFields\<lparr>b_title := Some ''A'', b_content := Some ''B'',
                              b_status := Some ''published''\<rparr>) = Some ''A''
      \<and> trim ''A'' \<noteq> []
      \<and> b_content (noFields\<lparr>b_title := Some ''A'', b_content := Some ''B'',
                               b_status := Some ''published''\<rparr>) = Some ''B''
      \<and> ''B'' \<noteq> []
      \<and> castObjectId (p_id (generateToken exBob)) = Some exBobId
      \<and> b_status (noFields\<lparr>b_title := Some ''A'', b_content := Some ''B'',
                              b_status := Some ''published''\<rparr>) = Some ''published''
      \<and> ''published'' \<in> set allowed
      \<and> list_all (\<lambda>c. c \<in> set CATEGORIES)
           (normalizeCategories (b_categories (noFields\<lparr>b_title := Some ''A'',
              b_content := Some ''B'', b_status := Some ''published''\<rparr>)))"
    by code_simp
  have p3: "createArticle exNewId 300 (generateToken exBob)
        (noFields\<lparr>b_title := Some ''A'', b_content := Some ''B'', b_status := Some ''published''\<rparr>)
        exDb
       = (Inr exCreated, exDb\<lparr>articles := [exArticle, exDraft, exCreated]\<rparr>)"
    by code_simp
  note t1 = create_article_defaults
      [where body = "noFields\<lparr>b_title := Some ''A'', b_content := Some ''B''\<rparr>"
         and t = "''A''" and c = "''B''" and user = "generateToken exBob" and au = exBobId
         and newId = exNewId and now = 300 and d = exDb]
  note t2 = create_article_defaults
      [where body = "noFields\<lparr>b_title := Some ''A'', b_content := Some ''B'',
                              b_status := Some ''published''\<rparr>"
         and t = "''A''" and c = "''B''" and user = "generateToken exBob" and au = exBobId
         and newId = exNewId and now = 300 and d = exDb and s = "''published''"
         and a' = exCreated and d' = "exDb\<lparr>articles := [exArticle, exDraft, exCreated]\<rparr>"]
  from t1 p1 have c1: "\<exists>a. createArticle exNewId 300 (generateToken exBob)
           (noFields\<lparr>b_title := Some ''A'', b_content := Some ''B''\<rparr>) exDb
         = (Inr a, exDb\<lparr>articles := articles exDb @ [a]\<rparr>)
        \<and> categories a = [''latest''] \<and> status a = ''draft'' \<and> publishedAt a = None
        \<and> author a = exBobId"
    by blast
  from t2 p2 have c2: "\<exists>a. createArticle exNewId 300 (generateToken exBob)
           (noFields\<lparr>b_title := Some ''A'', b_content := Some ''B'', b_status := Some ''published''\<rparr>)
           exDb
         = (Inr a, exDb\<lparr>articles := articles exDb @ [a]\<rparr>)
        \<and> status a = ''published''"
    by blast
  have c3: "status exCreated = ''published''" by code_simp
  from t2 p3 c3 have c4: "publishedAt exCreated = Some 300" by blast
  from c1 c2 p3 c3 c4 show ?thesis by blast
qed

section \<open>Roles of accounts\<close>




























end
